theory Spec2Isabelle
  imports Complex_Main
begin

section \<open>Values\<close>

text \<open>
  A finite JavaScript number is modelled by the rational it denotes: every finite double is
  a rational. The numbers of the page are of this kind. They arrive in the body the proxy
  endpoint has written with \<open>JSON.stringify\<close>, which prints neither an infinity nor a
  negative zero, so the page never holds one.
\<close>

type_synonym number = rat

text \<open>
  The numbers \<open>JSON.parse\<close> can give: a finite double (\<open>Num 0\<close> is the positive zero),
  the negative zero (the literal \<open>-0\<close>, or a negative literal too small for a double), and
  the two infinities (a literal too large for a double, such as \<open>1e999\<close>). \<open>NaN\<close> has no
  literal.
\<close>

datatype jsnumber = Num number | NegZero | PosInfinity | NegInfinity

text \<open>
  A JSON document, identified with the value \<open>JSON.parse\<close> gives for it: a number literal
  is the double it parses to, an object is the list of its properties in enumeration order.
\<close>

datatype json =
    JNull
  | JBool bool
  | JNumber jsnumber
  | JString string
  | JArray "json list"
  | JObject "(string \<times> json) list"

section \<open>Platform functions used by the page\<close>

text \<open>
  The page calls three functions of the JavaScript runtime: \<open>Number.prototype.toFixed\<close>,
  \<open>Intl.NumberFormat(...).format\<close> and \<open>Date.prototype.toLocaleDateString\<close>. They are not
  code of the repository; the definitions of this section follow ECMA-262 and ECMA-402 for
  the options the page passes.
\<close>

fun digits :: "nat \<Rightarrow> string" where
  "digits n =
     (if n < 10 then [''0123456789'' ! n]
      else digits (n div 10) @ [''0123456789'' ! (n mod 10)])"

declare digits.simps [simp del]

text \<open>
  Doubles from \<open>2^53\<close> on are integers, and the runtime prints such a number by the
  shortest decimal that still rounds to it. \<open>roundToDouble n\<close> is the double nearest to the
  integer \<open>n\<close> (53 significant bits, a tie goes to the even mantissa). \<open>shortestDecimal n\<close>
  is the decimal with the fewest significant digits that rounds to the same double as \<open>n\<close>,
  the nearest one to \<open>n\<close> of two: \<open>shortestFrom\<close> tries \<open>k = 1, 2, ...\<close> significant digits,
  with the multiples of \<open>10^(len - k)\<close> next below and next above. Below \<open>2^53\<close> every
  integer is a double and is its own shortest decimal.
\<close>

fun bitLength :: "nat \<Rightarrow> nat" where
  "bitLength n = (if n = 0 then 0 else Suc (bitLength (n div 2)))"

declare bitLength.simps [simp del]

definition roundToDouble :: "nat \<Rightarrow> nat" where
  "roundToDouble n =
     (if n < 2 ^ 53 then n
      else let e = bitLength n - 53;
               q = n div 2 ^ e;
               r = n mod 2 ^ e;
               h = 2 ^ (e - 1)
           in (if h < r then q + 1 else if r = h \<and> odd q then q + 1 else q) * 2 ^ e)"

function shortestFrom :: "nat \<Rightarrow> nat \<Rightarrow> nat \<Rightarrow> nat" where
  "shortestFrom x len k =
     (if len \<le> k then x
      else let p = 10 ^ (len - k);
               lo = (x div p) * p;
               hi = lo + p;
               okLo = (roundToDouble lo = roundToDouble x);
               okHi = (roundToDouble hi = roundToDouble x)
           in if okLo \<and> okHi then (if x - lo \<le> hi - x then lo else hi)
              else if okLo then lo
              else if okHi then hi
              else shortestFrom x len (Suc k))"
  by pat_completeness auto
termination
  by (relation "measure (\<lambda>(x, len, k). len - k)") auto

declare shortestFrom.simps [simp del]

definition shortestDecimal :: "nat \<Rightarrow> nat" where
  "shortestDecimal n = (if n < 2 ^ 53 then n else shortestFrom n (length (digits n)) 1)"

text \<open>
  \<open>Number::toString\<close> of an integer of 22 digits or more: the significant digits, a point
  after the first of them when there are several, and the decimal exponent.
\<close>

definition exponentNotation :: "nat \<Rightarrow> string" where
  "exponentNotation c =
     (let ds = digits c;
          sig = rev (dropWhile (\<lambda>ch. ch = CHR ''0'') (rev ds))
      in (if length sig \<le> 1 then sig else take 1 sig @ ''.'' @ drop 1 sig) @
         ''e+'' @ digits (length ds - 1))"

text \<open>
  \<open>x.toFixed(f)\<close>: the sign is split off. A magnitude of \<open>10^21\<close> or more is printed by
  \<open>Number::toString\<close>, in exponent notation. Below that, \<open>n\<close> is the integer nearest to
  \<open>x * 10^f\<close> (the larger one of two), its decimal digits are padded with zeros to \<open>f + 1\<close>
  places and the point is put before the last \<open>f\<close> of them.
\<close>

definition toFixed :: "nat \<Rightarrow> number \<Rightarrow> string" where
  "toFixed f x =
     (let s = (if x < 0 then ''-'' else '''');
          n = nat \<lfloor>\<bar>x\<bar> * 10 ^ f + 1 / 2\<rfloor>;
          m = digits n;
          k = length m;
          m' = (if k \<le> f then replicate (f + 1 - k) (CHR ''0'') @ m else m);
          k' = length m'
      in if 10 ^ 21 \<le> \<bar>x\<bar> then s @ exponentNotation (shortestDecimal (nat \<lfloor>\<bar>x\<bar>\<rfloor>))
         else if f = 0 then s @ m
         else s @ take (k' - f) m' @ ''.'' @ drop (k' - f) m')"

text \<open>
  Grouping of an integer in threes with commas, as the \<open>en-US\<close> locale does.
\<close>

fun groupThousands :: "nat \<Rightarrow> string" where
  "groupThousands n =
     (if n < 1000 then digits n
      else groupThousands (n div 1000) @ '','' @
           [''0123456789'' ! (n mod 1000 div 100),
            ''0123456789'' ! (n mod 100 div 10),
            ''0123456789'' ! (n mod 10)])"

declare groupThousands.simps [simp del]

text \<open>
  \<open>new Intl.NumberFormat("en-US", {style: "currency", currency: "USD",
  maximumFractionDigits: 0}).format(v)\<close>: the magnitude is rounded to an integer, halves
  away from zero, grouped, and prefixed by the dollar sign; a negative value has the minus
  sign before the dollar sign. The formatter rounds the shortest decimal of the double.
  Below \<open>2^53\<close> that decimal and the double lie on the same side of every half, so rounding
  the double itself gives the same integer; from \<open>2^53\<close> on the double is an integer and
  the digits are those of its shortest decimal.
\<close>

definition intlCurrencyUSD0 :: "number \<Rightarrow> string" where
  "intlCurrencyUSD0 v =
     (if v < 0 then ''-'' else '''') @ ''$'' @
     groupThousands (shortestDecimal (nat \<lfloor>\<bar>v\<bar> + 1 / 2\<rfloor>))"

text \<open>
  Month and day of the proleptic Gregorian calendar for a day number counted from
  1970-01-01 (day 0).
\<close>

definition civilMonthDay :: "int \<Rightarrow> nat \<times> nat" where
  "civilMonthDay days =
     (let z = days + 719468;
          era = z div 146097;
          doe = z - era * 146097;
          yoe = (doe - doe div 1460 + doe div 36524 - doe div 146096) div 365;
          doy = doe - (365 * yoe + yoe div 4 - yoe div 100);
          mp = (5 * doy + 2) div 153;
          d = doy - (153 * mp + 2) div 5 + 1;
          m = (if mp < 10 then mp + 3 else mp - 9)
      in (nat m, nat d))"

text \<open>
  \<open>new Date(ms).toLocaleDateString("en-US", {month: "numeric", day: "numeric"})\<close>. The
  constructor truncates the time value towards zero and makes the date invalid beyond
  \<open>8.64 * 10^15\<close> milliseconds on either side of the epoch. The parameter \<open>tz\<close> is the
  runtime's local time zone: the offset from UTC, in milliseconds, at a UTC instant.
\<close>

definition toInteger :: "number \<Rightarrow> int" where
  "toInteger x = (if x < 0 then - \<lfloor>- x\<rfloor> else \<lfloor>x\<rfloor>)"

definition toLocaleDateStringMD :: "(int \<Rightarrow> int) \<Rightarrow> number \<Rightarrow> string" where
  "toLocaleDateStringMD tz ms =
     (if \<bar>ms\<bar> > 8640000000000000 then ''Invalid Date''
      else let t = toInteger ms;
               (m, d) = civilMonthDay ((t + tz t) div 86400000)
           in digits m @ ''/'' @ digits d)"

definition utc :: "int \<Rightarrow> int" where
  "utc t = 0"

section \<open>The proxy endpoint (\<open>src/app/api/pumpswap/route.ts\<close>)\<close>

text \<open>
  What the one outbound \<open>fetch\<close> can do: reject, or resolve with a status and a body. The
  body is \<open>None\<close> when \<open>response.json()\<close> rejects (the body is not JSON), else the parsed
  value.
\<close>

datatype upstream = Rejected | Resolved nat "json option"

text \<open>\<open>Response.ok\<close>: the status is in the range 200 to 299.\<close>

definition ok :: "nat \<Rightarrow> bool" where
  "ok st = (200 \<le> st \<and> st \<le> 299)"

text \<open>The values the \<open>try\<close> block can throw, and what \<open>console.error\<close> is given.\<close>

datatype thrown = FetchRejection | FailedToFetchData nat | JsonRejection

type_synonym log = "(string \<times> thrown) list"

record next_response =
  body :: json
  status :: nat

text \<open>The \<open>catch\<close> block: one log line and the fixed envelope with status 500.\<close>

definition catch :: "thrown \<Rightarrow> log \<times> next_response" where
  "catch e =
     ([(''Error fetching DefiLlama data:'', e)],
      \<lparr>body = JObject [(''error'', JString ''Failed to fetch data from DefiLlama'')],
       status = 500\<rparr>)"

text \<open>
  \<open>JSON.stringify\<close>, as \<open>NextResponse.json(data)\<close> applies it to the parsed body. The
  result is the document written, again identified with what it parses to: a finite number
  is printed by its shortest decimal, which parses back to the same double; the negative
  zero is printed as \<open>0\<close>; an infinity is printed as \<open>null\<close>.
\<close>

primrec stringify :: "json \<Rightarrow> json" where
  "stringify JNull = JNull"
| "stringify (JBool b) = JBool b"
| "stringify (JNumber x) =
     (case x of
        Num q \<Rightarrow> JNumber (Num q)
      | NegZero \<Rightarrow> JNumber (Num 0)
      | PosInfinity \<Rightarrow> JNull
      | NegInfinity \<Rightarrow> JNull)"
| "stringify (JString s) = JString s"
| "stringify (JArray vs) = JArray (map stringify vs)"
| "stringify (JObject ps) = JObject (map (map_prod id stringify) ps)"


text \<open>
  \<open>GET\<close>: \<open>NextResponse.json(data)\<close> without an init argument answers with status 200.
\<close>

definition GET :: "upstream \<Rightarrow> log \<times> next_response" where
  "GET u =
     (case u of
        Rejected \<Rightarrow> catch FetchRejection
      | Resolved st b \<Rightarrow>
          if \<not> ok st then catch (FailedToFetchData st)
          else (case b of
                  None \<Rightarrow> catch JsonRejection
                | Some d \<Rightarrow> ([], \<lparr>body = stringify d, status = 200\<rparr>)))"

section \<open>The detail view (\<open>PumpSwapPage\<close>)\<close>

subsection \<open>Data\<close>

text \<open>
  The two interfaces of the page. An optional field is an \<open>option\<close>; \<open>chainTvls\<close>, a
  \<open>Record<string, number>\<close>, is the list of its entries in the order \<open>Object.entries\<close>
  enumerates them. TypeScript's types are erased at run time: the model takes the snapshot to
  have the shape the interface declares (a field that is \<open>null\<close>, a string or an object
  where the interface has a number is outside the model).
\<close>

record ChartDataPoint =
  date :: number
  totalLiquidityUSD :: number

record PumpSwapData =
  name :: "string option"
  description :: "string option"
  tvl :: "number option"
  chainTvls :: "(string \<times> number) list option"
  change_1d :: "number option"
  change_7d :: "number option"
  change_1m :: "number option"
  category :: "string option"
  tvlPrevDay :: "number option"
  tvlPrevWeek :: "number option"
  tvlPrevMonth :: "number option"

text \<open>
  The five \<open>useState\<close> cells of the component. \<open>data\<close> is \<open>None\<close> for \<open>null\<close>.
\<close>

record state =
  data :: "PumpSwapData option"
  chartData :: "ChartDataPoint list"
  loading :: bool
  error :: "string option"
  activeTab :: string

definition initial :: state where
  "initial = \<lparr>data = None, chartData = [], loading = True, error = None, activeTab = ''tvl''\<rparr>"

subsection \<open>The effect and the event handlers\<close>

text \<open>
  What \<open>fetch("/api/pumpswap")\<close> can do: reject, or resolve with a status and a body; the
  body is \<open>None\<close> when \<open>response.json()\<close> rejects, else the parsed value (\<open>Some None\<close> for the
  JSON value \<open>null\<close>).
\<close>

datatype fetched = FetchRejected | FetchResolved nat "PumpSwapData option option"

text \<open>
  \<open>fetchData\<close>: every path through \<open>try\<close> and \<open>catch\<close> ends in the \<open>finally\<close> block. The state
  setters it calls are \<open>setData\<close>, \<open>setError\<close> and \<open>setLoading\<close>.
\<close>

definition fetchData :: "fetched \<Rightarrow> state \<Rightarrow> state" where
  "fetchData r s =
     (let s' =
        (case r of
           FetchRejected \<Rightarrow> s\<lparr>error := Some ''Failed to load PumpSwap data''\<rparr>
         | FetchResolved st b \<Rightarrow>
             if \<not> ok st then s\<lparr>error := Some ''Failed to load PumpSwap data''\<rparr>
             else (case b of
                     None \<Rightarrow> s\<lparr>error := Some ''Failed to load PumpSwap data''\<rparr>
                   | Some result \<Rightarrow> s\<lparr>data := result\<rparr>))
      in s'\<lparr>loading := False\<rparr>)"

datatype tab = Tvl | Volume | Fees | Revenue

fun tabKey :: "tab \<Rightarrow> string" where
  "tabKey Tvl = ''tvl''"
| "tabKey Volume = ''volume''"
| "tabKey Fees = ''fees''"
| "tabKey Revenue = ''revenue''"

fun tabLabel :: "tab \<Rightarrow> string" where
  "tabLabel Tvl = ''TVL''"
| "tabLabel Volume = ''Volume''"
| "tabLabel Fees = ''Fees''"
| "tabLabel Revenue = ''Revenue''"

text \<open>
  The events that change the state of a mounted page: the fetch of the mount effect
  settles, or one of the four tab buttons is clicked (\<open>setActiveTab\<close>). The component has
  no other call of a state setter; in particular \<open>setChartData\<close> is never called.
\<close>

datatype event = Settled fetched | Click tab

fun step :: "event \<Rightarrow> state \<Rightarrow> state" where
  "step (Settled r) s = fetchData r s"
| "step (Click t) s = s\<lparr>activeTab := tabKey t\<rparr>"

text \<open>
  The state after a sequence of events, from the initial state. The mount effect runs once,
  so a real execution has at most one \<open>Settled\<close> event; \<open>run\<close> allows any sequence.
\<close>

definition run :: "event list \<Rightarrow> state" where
  "run evs = foldl (\<lambda>s e. step e s) initial evs"

subsection \<open>Formatting helpers of the component\<close>

definition formatCurrency :: "number \<Rightarrow> string" where
  "formatCurrency v = intlCurrencyUSD0 v"

definition formatDate :: "(int \<Rightarrow> int) \<Rightarrow> number \<Rightarrow> string" where
  "formatDate tz timestamp = toLocaleDateStringMD tz (timestamp * 1000)"

subsection \<open>The chart dataset\<close>

text \<open>
  The object \<open>prepareChartData\<close> returns. The field \<open>data'\<close> is the dataset's \<open>data\<close>
  (the name \<open>data\<close> is the state cell's).
\<close>

record dataset =
  label :: string
  data' :: "number list"
  borderColor :: string
  backgroundColor :: string
  borderWidth :: nat
  pointRadius :: nat
  pointHoverRadius :: nat
  fill :: bool
  tension :: number

record chart =
  labels :: "string list"
  datasets :: "dataset list"

text \<open>
  \<open>xs.slice(-30)\<close>: the start index is \<open>max (length - 30) 0\<close>, which is what the
  truncating subtraction of \<open>nat\<close> computes.
\<close>

definition slice_last :: "nat \<Rightarrow> 'a list \<Rightarrow> 'a list" where
  "slice_last n xs = drop (length xs - n) xs"

definition prepareChartData :: "(int \<Rightarrow> int) \<Rightarrow> ChartDataPoint list \<Rightarrow> chart" where
  "prepareChartData tz cd =
     (let recentData = slice_last 30 cd
      in \<lparr>labels = map (\<lambda>item. formatDate tz (date item)) recentData,
          datasets =
            [\<lparr>label = ''Total Value Locked (TVL)'',
              data' = map (\<lambda>item. totalLiquidityUSD item) recentData,
              borderColor = ''rgb(34, 197, 94)'',
              backgroundColor = ''rgba(34, 197, 94, 0.1)'',
              borderWidth = 2,
              pointRadius = 0,
              pointHoverRadius = 4,
              fill = True,
              tension = 3 / 10\<rparr>]\<rparr>)"

subsection \<open>Rendered output\<close>

text \<open>
  What the component returns: text, an element with its tag, its \<open>className\<close> and its
  children, or the chart renderer \<open>Line\<close> of react-chartjs-2 applied to a dataset. Other
  attributes (\<open>href\<close>, \<open>type\<close>, \<open>key\<close>, the click handlers, the constant chart options) are
  left out; the click handlers are the \<open>Click\<close> events above. A JSX expression that may
  render nothing is a list of nodes, spliced into the children of its parent.
\<close>

datatype node =
    Txt string
  | El string string "node list"
  | Line chart

fun invokesChart :: "node \<Rightarrow> bool" where
  "invokesChart (Txt s) = False"
| "invokesChart (El t c ns) = list_ex invokesChart ns"
| "invokesChart (Line ch) = True"

fun texts :: "node \<Rightarrow> string list" where
  "texts (Txt s) = [s]"
| "texts (El t c ns) = concat (map texts ns)"
| "texts (Line ch) = []"

text \<open>
  \<open>{v}\<close> for an optional string: \<open>undefined\<close> renders nothing, and so does the empty
  string, for which React creates no text node.
\<close>

definition textOf :: "string option \<Rightarrow> node list" where
  "textOf v = (case v of None \<Rightarrow> [] | Some s \<Rightarrow> if s = [] then [] else [Txt s])"

text \<open>
  The header. \<open>data.tvl && (...)\<close> is \<open>undefined\<close> for an absent \<open>tvl\<close>, which renders
  nothing; it is the number \<open>0\<close> for \<open>tvl = 0\<close>, which React renders as the text \<open>0\<close>; for any
  other number it is the block with the formatted value.
\<close>

definition header :: "PumpSwapData \<Rightarrow> node" where
  "header d =
     El ''div'' ''flex flex-col md:flex-row justify-between items-start md:items-center mb-6''
       (El ''h1'' ''text-3xl font-bold'' (textOf (name d)) #
        (case tvl d of
           None \<Rightarrow> []
         | Some v \<Rightarrow>
             if v = 0 then [Txt ''0'']
             else [El ''div'' ''mt-2 md:mt-0''
                     [El ''p'' ''text-sm text-gray-500'' [Txt ''Total Value Locked''],
                      El ''p'' ''text-2xl font-bold'' [Txt (formatCurrency v)]]]))"

definition tabButton :: "string \<Rightarrow> tab \<Rightarrow> node" where
  "tabButton active t =
     El ''button''
       (''px-4 py-2 rounded-md '' @
        (if active = tabKey t then ''bg-green-600 text-white'' else ''bg-gray-200''))
       [Txt (tabLabel t)]"

text \<open>The chart area: the renderer when the list has an entry, else the placeholder.\<close>

definition chartArea :: "(int \<Rightarrow> int) \<Rightarrow> ChartDataPoint list \<Rightarrow> node" where
  "chartArea tz cd =
     El ''div'' ''h-80 mt-6''
       [if length cd > 0 then Line (prepareChartData tz cd)
        else El ''div'' ''flex justify-center items-center h-full''
               [El ''p'' [] [Txt ''No chart data available'']]]"

definition information :: "PumpSwapData \<Rightarrow> node" where
  "information d =
     El ''div'' ''bg-white p-6 rounded-lg shadow-sm''
       [El ''h3'' ''text-xl font-bold mb-4'' [Txt ''Information''],
        El ''p'' ''text-gray-700 mb-4'' (textOf (description d)),
        El ''p'' ''mb-2''
          ([El ''span'' ''font-semibold text-gray-600'' [Txt ''Category:''], Txt '' ''] @
           textOf (category d))]"

text \<open>
  A percentage badge. \<open>isUp\<close> is the condition \<open>change && change >= 0\<close> of both class
  names, \<open>changeText\<close> the expression \<open>change ? `${change.toFixed(2)}%` : "N/A"\<close>. A number
  is truthy when it is not zero, \<open>undefined\<close> is falsy.
\<close>

definition isUp :: "number option \<Rightarrow> bool" where
  "isUp change = (case change of None \<Rightarrow> False | Some x \<Rightarrow> x \<noteq> 0 \<and> x \<ge> 0)"

definition changeText :: "number option \<Rightarrow> string" where
  "changeText change =
     (case change of
        None \<Rightarrow> ''N/A''
      | Some x \<Rightarrow> if x \<noteq> 0 then toFixed 2 x @ ''%'' else ''N/A'')"

definition changeBadge :: "string \<Rightarrow> number option \<Rightarrow> node" where
  "changeBadge period change =
     El ''div'' (''p-4 rounded-lg '' @ (if isUp change then ''bg-green-50'' else ''bg-red-50''))
       [El ''p'' ''text-sm text-gray-500'' [Txt period],
        El ''p'' (''font-bold '' @ (if isUp change then ''text-green-600'' else ''text-red-600''))
          [Txt (changeText change)]]"

definition badges :: "PumpSwapData \<Rightarrow> node list" where
  "badges d =
     [changeBadge ''24h'' (change_1d d),
      changeBadge ''7d'' (change_7d d),
      changeBadge ''30d'' (change_1m d)]"

definition performance :: "PumpSwapData \<Rightarrow> node" where
  "performance d =
     El ''div'' ''bg-white p-6 rounded-lg shadow-sm''
       [El ''h3'' ''text-xl font-bold mb-4'' [Txt ''Performance''],
        El ''div'' ''grid grid-cols-3 gap-4'' (badges d)]"

text \<open>
  The chain distribution: \<open>data.chainTvls && Object.keys(data.chainTvls).length > 0 && (...)\<close>
  is \<open>undefined\<close> or \<open>false\<close>, which render nothing, or the grid with a card for each entry.
\<close>

definition chainCard :: "string \<times> number \<Rightarrow> node" where
  "chainCard e =
     (case e of (chain, v) \<Rightarrow>
        El ''div'' ''p-4 bg-gray-50 rounded-lg''
          [El ''p'' ''font-semibold'' (textOf (Some chain)),
           El ''p'' [] [Txt (formatCurrency v)]])"

definition chainDistribution :: "PumpSwapData \<Rightarrow> node list" where
  "chainDistribution d =
     (case chainTvls d of
        None \<Rightarrow> []
      | Some entries \<Rightarrow>
          if length entries > 0
          then [El ''div'' ''bg-white p-6 rounded-lg shadow-sm''
                  [El ''h3'' ''text-xl font-bold mb-4'' [Txt ''Chain Distribution''],
                   El ''div'' ''grid grid-cols-2 sm:grid-cols-3 md:grid-cols-4 gap-4''
                     (map chainCard entries)]]
          else [])"

text \<open>The fragment rendered for a snapshot that is not \<open>null\<close>.\<close>

definition readyContent :: "(int \<Rightarrow> int) \<Rightarrow> state \<Rightarrow> PumpSwapData \<Rightarrow> node list" where
  "readyContent tz s d =
     [header d,
      El ''div'' ''mb-8''
        [El ''div'' ''bg-white rounded-lg shadow-sm p-4 mb-4''
           [El ''div'' ''flex space-x-2 mb-4''
              (map (tabButton (activeTab s)) [Tvl, Volume, Fees, Revenue]),
            chartArea tz (chartData s)]],
      El ''div'' ''grid grid-cols-1 md:grid-cols-2 gap-6 mb-8''
        [information d, performance d]] @
     chainDistribution d"

text \<open>
  The nested conditional of the page: loading, then error (a string is truthy when it is
  not empty), then the snapshot (an object is truthy, \<open>null\<close> is falsy).
\<close>

definition content :: "(int \<Rightarrow> int) \<Rightarrow> state \<Rightarrow> node list" where
  "content tz s =
     (if loading s
      then [El ''div'' ''flex justify-center items-center h-64'' [El ''p'' [] [Txt ''Loading data...'']]]
      else (case error s of
              Some e \<Rightarrow>
                if e \<noteq> [] then [El ''p'' ''text-red-500'' [Txt e]]
                else (case data s of
                        Some d \<Rightarrow> readyContent tz s d
                      | None \<Rightarrow> [El ''p'' [] [Txt ''No data available'']])
            | None \<Rightarrow>
                (case data s of
                   Some d \<Rightarrow> readyContent tz s d
                 | None \<Rightarrow> [El ''p'' [] [Txt ''No data available'']])))"

text \<open>
  The seven bytes that stand before \<open>Back to Home\<close> in the link text of the file.
\<close>

definition leftArrow :: string where
  "leftArrow = [CHR 0xE2, CHR 0x80, CHR 0x9A, CHR 0xC3, CHR 0x9C, CHR 0xC3, CHR 0xAA]"

definition PumpSwapPage :: "(int \<Rightarrow> int) \<Rightarrow> state \<Rightarrow> node" where
  "PumpSwapPage tz s =
     El ''div'' ''min-h-screen p-8 bg-gray-50''
       [El ''Link'' ''text-blue-500 hover:underline mb-4 inline-block''
          [Txt (leftArrow @ '' Back to Home'')],
        El ''div'' ''max-w-6xl mx-auto'' (content tz s)]"

subsection \<open>Reading rendered output\<close>

text \<open>
  All nodes of a rendered tree, the tree itself first: a node is shown by the page when it
  is among the \<open>subnodes\<close> of what \<open>PumpSwapPage\<close> returns.
\<close>

fun subnodes :: "node \<Rightarrow> node list" where
  "subnodes (Txt s) = [Txt s]"
| "subnodes (El t c ns) = El t c ns # concat (map subnodes ns)"
| "subnodes (Line ch) = [Line ch]"

text \<open>The snapshot \<open>{}\<close>: an object without any of the fields.\<close>

definition emptySnapshot :: PumpSwapData where
  "emptySnapshot =
     \<lparr>name = None, description = None, tvl = None, chainTvls = None, change_1d = None,
      change_7d = None, change_1m = None, category = None, tvlPrevDay = None,
      tvlPrevWeek = None, tvlPrevMonth = None\<rparr>"

section \<open>Auxiliary facts\<close>

subsection \<open>Serialisation\<close>



subsection \<open>The state cells\<close>

lemma chartData_step: "chartData (step e s) = chartData s"
  by (cases e) (simp_all add: fetchData_def Let_def split: fetched.splits option.splits)

lemma chartData_foldl: "chartData (foldl (\<lambda>s e. step e s) s evs) = chartData s"
  by (induction evs arbitrary: s) (simp_all add: chartData_step)

lemma chartData_run: "chartData (run evs) = []"
  by (simp add: run_def chartData_foldl initial_def)

lemma no_chart_textOf: "list_ex invokesChart (textOf v) = False"
  by (cases v) (simp_all add: textOf_def)

lemma no_chart_header: "invokesChart (header d) = False"
  by (simp add: header_def no_chart_textOf split: option.splits)

lemma no_chart_tabButton: "invokesChart (tabButton a t) = False"
  by (simp add: tabButton_def)

lemma no_chart_information: "invokesChart (information d) = False"
  by (simp add: information_def no_chart_textOf)

lemma no_chart_badge: "invokesChart (changeBadge p c) = False"
  by (simp add: changeBadge_def)

lemma no_chart_performance: "invokesChart (performance d) = False"
  by (simp add: performance_def badges_def no_chart_badge)

lemma no_chart_cards: "list_ex invokesChart (map chainCard es) = False"
  by (induction es) (simp_all add: chainCard_def textOf_def split: prod.splits)

lemma no_chart_chains: "list_ex invokesChart (chainDistribution d) = False"
  by (simp add: chainDistribution_def no_chart_cards split: option.splits)

lemma no_chart_chartArea: "invokesChart (chartArea tz []) = False"
  by (simp add: chartArea_def)

lemma no_chart_ready:
  "chartData s = [] \<Longrightarrow> list_ex invokesChart (readyContent tz s d) = False"
  by (simp add: readyContent_def no_chart_header no_chart_tabButton no_chart_chartArea
      no_chart_information no_chart_performance no_chart_chains)

lemma no_chart_content:
  "chartData s = [] \<Longrightarrow> list_ex invokesChart (content tz s) = False"
  by (simp add: content_def no_chart_ready split: option.splits)

lemma no_chart_page: "chartData s = [] \<Longrightarrow> invokesChart (PumpSwapPage tz s) = False"
  by (simp add: PumpSwapPage_def no_chart_content)

subsection \<open>The ready state\<close>

lemma content_ready:
  "\<not> loading s \<Longrightarrow> error s = None \<Longrightarrow> data s = Some d \<Longrightarrow> content tz s = readyContent tz s d"
  by (simp add: content_def)

lemma settled_ok:
  "200 \<le> st \<Longrightarrow> st \<le> 299 \<Longrightarrow>
   run [Settled (FetchResolved st (Some r))] = initial\<lparr>data := r, loading := False\<rparr>"
  by (simp add: run_def fetchData_def ok_def)

lemma subnodes_self: "n \<in> set (subnodes n)"
  by (cases n) simp_all

lemma ready_shows:
  assumes "\<not> loading s" "error s = None" "data s = Some d"
  shows "header d \<in> set (subnodes (PumpSwapPage tz s))"
    and "performance d \<in> set (subnodes (PumpSwapPage tz s))"
    and "El ''div'' ''grid grid-cols-3 gap-4'' (badges d) \<in> set (subnodes (PumpSwapPage tz s))"
    and "set (chainDistribution d) \<subseteq> set (subnodes (PumpSwapPage tz s))"
proof -
  have c: "content tz s = readyContent tz s d"
    using assms by (rule content_ready)
  show "header d \<in> set (subnodes (PumpSwapPage tz s))"
    by (simp add: PumpSwapPage_def c readyContent_def header_def)
  show "performance d \<in> set (subnodes (PumpSwapPage tz s))"
    by (simp add: PumpSwapPage_def c readyContent_def performance_def)
  show "El ''div'' ''grid grid-cols-3 gap-4'' (badges d) \<in> set (subnodes (PumpSwapPage tz s))"
    by (simp add: PumpSwapPage_def c readyContent_def performance_def)
  have "\<And>n. n \<in> set (subnodes n)" by (rule subnodes_self)
  then show "set (chainDistribution d) \<subseteq> set (subnodes (PumpSwapPage tz s))"
    by (auto simp add: PumpSwapPage_def c readyContent_def)
qed

subsection \<open>Where a heading can occur\<close>

lemma heading_not_in_textOf:
  "x \<in> set (textOf v) \<Longrightarrow> El ''h3'' c [Txt t] \<notin> set (subnodes x)"
  by (cases v) (auto simp add: textOf_def split: if_splits)

lemma heading_not_in_card:
  "El ''h3'' c [Txt t] \<notin> set (subnodes (chainCard e))"
  by (cases e) (simp add: chainCard_def textOf_def)

lemma heading_not_in_header:
  "El ''h3'' c [Txt t] \<notin> set (subnodes (header d))"
proof (cases "tvl d")
  case None
  then show ?thesis by (auto simp add: header_def dest: heading_not_in_textOf)
next
  case (Some v)
  then show ?thesis by (auto simp add: header_def dest: heading_not_in_textOf)
qed

lemma heading_not_in_chartArea:
  "El ''h3'' c [Txt t] \<notin> set (subnodes (chartArea tz cd))"
  by (simp add: chartArea_def)

lemma heading_not_in_tabButton:
  "El ''h3'' c [Txt t] \<notin> set (subnodes (tabButton a b))"
  by (simp add: tabButton_def)

lemma heading_not_in_badge:
  "El ''h3'' c [Txt t] \<notin> set (subnodes (changeBadge p x))"
  by (simp add: changeBadge_def)

lemma chain_heading_not_in_information:
  "El ''h3'' ''text-xl font-bold mb-4'' [Txt ''Chain Distribution''] \<notin> set (subnodes (information d))"
  by (auto simp add: information_def dest: heading_not_in_textOf)

lemma chain_heading_not_in_performance:
  "El ''h3'' ''text-xl font-bold mb-4'' [Txt ''Chain Distribution''] \<notin> set (subnodes (performance d))"
  by (simp add: performance_def badges_def heading_not_in_badge)

lemma chain_heading_in_chains:
  "(\<exists>x\<in>set (chainDistribution d).
      El ''h3'' ''text-xl font-bold mb-4'' [Txt ''Chain Distribution''] \<in> set (subnodes x)) \<longleftrightarrow>
   (\<exists>entries. chainTvls d = Some entries \<and> entries \<noteq> [])"
proof (cases "chainTvls d")
  case None
  then show ?thesis by (simp add: chainDistribution_def)
next
  case (Some es)
  then show ?thesis by (cases es) (simp_all add: chainDistribution_def)
qed

lemma chain_heading_on_page:
  assumes "\<not> loading s" "error s = None" "data s = Some d"
  shows "El ''h3'' ''text-xl font-bold mb-4'' [Txt ''Chain Distribution''] \<in>
           set (subnodes (PumpSwapPage tz s)) \<longleftrightarrow>
         (\<exists>entries. chainTvls d = Some entries \<and> entries \<noteq> [])"
proof -
  have c: "content tz s = readyContent tz s d"
    using assms by (rule content_ready)
  show ?thesis
    by (simp add: PumpSwapPage_def c readyContent_def heading_not_in_header
        heading_not_in_tabButton heading_not_in_chartArea chain_heading_not_in_information
        chain_heading_not_in_performance chain_heading_in_chains)
qed

subsection \<open>Formatting at concrete values\<close>

lemma digits_chars: "set (digits n) \<subseteq> set ''0123456789'' \<and> digits n \<noteq> []"
proof (induction n rule: digits.induct)
  case (1 n)
  show ?case
  proof (cases "n < 10")
    case True
    then have "''0123456789'' ! n \<in> set ''0123456789''"
      by (intro nth_mem) simp
    with True show ?thesis by (subst digits.simps, subst digits.simps) simp
  next
    case False
    have "n mod 10 < 10" by simp
    then have "''0123456789'' ! (n mod 10) \<in> set ''0123456789''"
      by (intro nth_mem) simp
    with False "1" show ?thesis by (subst digits.simps, subst digits.simps) simp
  qed
qed



lemma round_half_nat: "nat \<lfloor>\<bar>of_nat n :: rat\<bar> + 1 / 2\<rfloor> = n"
proof -
  have "\<lfloor>(of_nat n :: rat) + 1 / 2\<rfloor> = int n"
    by (rule floor_unique) simp_all
  then show ?thesis by simp
qed

lemma formatCurrency_nat:
  assumes "n < 2 ^ 53"
  shows "formatCurrency (of_nat n) = ''$'' @ groupThousands n"
proof -
  have "formatCurrency (of_nat n) = ''$'' @ groupThousands (shortestDecimal n)"
    unfolding formatCurrency_def intlCurrencyUSD0_def round_half_nat by simp
  moreover have "shortestDecimal n = n"
    using assms by (simp add: shortestDecimal_def)
  ultimately show ?thesis by simp
qed

lemma groupThousands_examples:
  "groupThousands 1234567 = ''1,234,567''"
  "groupThousands 500000 = ''500,000''"
  by (simp_all add: groupThousands.simps digits.simps)

lemma formatCurrency_examples:
  "formatCurrency 1234567 = ''$1,234,567''"
  "formatCurrency 500000 = ''$500,000''"
  using formatCurrency_nat [of 1234567] formatCurrency_nat [of 500000]
  by (simp_all add: groupThousands_examples)

lemma chainCard_text:
  "chainCard (chain, v) =
     El ''div'' ''p-4 bg-gray-50 rounded-lg''
       [El ''p'' ''font-semibold'' (if chain = [] then [] else [Txt chain]),
        El ''p'' []
          [Txt ((if v < 0 then ''-'' else '''') @ ''$'' @
                groupThousands (shortestDecimal (nat \<lfloor>\<bar>v\<bar> + 1 / 2\<rfloor>)))]]"
  by (simp add: chainCard_def textOf_def formatCurrency_def intlCurrencyUSD0_def)

lemma currency_text_examples:
  "(if (500000::rat) < 0 then ''-'' else '''') @ ''$'' @
     groupThousands (shortestDecimal (nat \<lfloor>\<bar>500000::rat\<bar> + 1 / 2\<rfloor>)) = ''$500,000''"
  "(if (1234567::rat) < 0 then ''-'' else '''') @ ''$'' @
     groupThousands (shortestDecimal (nat \<lfloor>\<bar>1234567::rat\<bar> + 1 / 2\<rfloor>)) = ''$1,234,567''"
  using formatCurrency_examples
  by (simp_all add: formatCurrency_def intlCurrencyUSD0_def)

lemma toFixed_example: "toFixed 2 (- 3456 / 1000) = ''-3.46''"
  by code_simp

lemma formatCurrency_of_nat:
  "formatCurrency (of_nat n) = ''$'' @ groupThousands (shortestDecimal n)"
  unfolding formatCurrency_def intlCurrencyUSD0_def round_half_nat by simp

lemma toFixed_of_nat_large:
  assumes "10 ^ 21 \<le> n"
  shows "toFixed f (of_nat n) = exponentNotation (shortestDecimal n)"
proof -
  have "(10::rat) ^ 21 \<le> of_nat n"
    using assms by (metis of_nat_le_iff of_nat_numeral of_nat_power)
  then show ?thesis
    by (simp add: toFixed_def Let_def)
qed

lemma shortestDecimal_examples:
  "shortestDecimal 99999999999999991611392 = 100000000000000000000000"
  "shortestDecimal 1000000000000000000000 = 1000000000000000000000"
  by (simp_all add: shortestDecimal_def shortestFrom.simps roundToDouble_def bitLength.simps
      digits.simps Let_def)

lemma large_value_examples:
  "formatCurrency 99999999999999991611392 = ''$100,000,000,000,000,000,000,000''"
  "toFixed 2 1000000000000000000000 = ''1e+21''"
proof -
  have "groupThousands 100000000000000000000000 = ''100,000,000,000,000,000,000,000''"
    by (simp add: groupThousands.simps digits.simps)
  then show "formatCurrency 99999999999999991611392 = ''$100,000,000,000,000,000,000,000''"
    using formatCurrency_of_nat [of 99999999999999991611392]
    by (simp add: shortestDecimal_examples)
  have "exponentNotation 1000000000000000000000 = ''1e+21''"
    by (simp add: exponentNotation_def digits.simps Let_def)
  then show "toFixed 2 1000000000000000000000 = ''1e+21''"
    using toFixed_of_nat_large [of 1000000000000000000000 2]
    by (simp add: shortestDecimal_examples)
qed

subsection \<open>Header and badges by case\<close>

lemma header_with_tvl:
  "tvl d = Some v \<Longrightarrow> v \<noteq> 0 \<Longrightarrow>
   header d =
     El ''div'' ''flex flex-col md:flex-row justify-between items-start md:items-center mb-6''
       [El ''h1'' ''text-3xl font-bold'' (textOf (name d)),
        El ''div'' ''mt-2 md:mt-0''
          [El ''p'' ''text-sm text-gray-500'' [Txt ''Total Value Locked''],
           El ''p'' ''text-2xl font-bold'' [Txt (formatCurrency v)]]]"
  by (simp add: header_def)

lemma header_without_tvl:
  "tvl d = None \<Longrightarrow>
   header d =
     El ''div'' ''flex flex-col md:flex-row justify-between items-start md:items-center mb-6''
       [El ''h1'' ''text-3xl font-bold'' (textOf (name d))]"
  by (simp add: header_def)

lemma header_example:
  "texts (header (emptySnapshot\<lparr>name := Some ''PumpSwap'', tvl := Some 1234567\<rparr>)) =
     [''PumpSwap'', ''Total Value Locked'', ''$1,234,567'']"
  by (simp add: header_def textOf_def formatCurrency_examples)

lemma badge_cases:
  "0 < x \<Longrightarrow>
     changeBadge p (Some x) =
       El ''div'' ''p-4 rounded-lg bg-green-50''
         [El ''p'' ''text-sm text-gray-500'' [Txt p],
          El ''p'' ''font-bold text-green-600'' [Txt (toFixed 2 x @ ''%'')]]"
  "x < 0 \<Longrightarrow>
     changeBadge p (Some x) =
       El ''div'' ''p-4 rounded-lg bg-red-50''
         [El ''p'' ''text-sm text-gray-500'' [Txt p],
          El ''p'' ''font-bold text-red-600'' [Txt (toFixed 2 x @ ''%'')]]"
  "changeBadge p None =
       El ''div'' ''p-4 rounded-lg bg-red-50''
         [El ''p'' ''text-sm text-gray-500'' [Txt p],
          El ''p'' ''font-bold text-red-600'' [Txt ''N/A'']]"
  by (simp_all add: changeBadge_def isUp_def changeText_def)

lemma badge_example:
  "changeBadge ''24h'' (Some (- 3456 / 1000)) =
     El ''div'' ''p-4 rounded-lg bg-red-50''
       [El ''p'' ''text-sm text-gray-500'' [Txt ''24h''],
        El ''p'' ''font-bold text-red-600'' [Txt ''-3.46%'']]"
proof -
  have n: "(- 3456 / 1000 :: rat) < 0" by simp
  show ?thesis
    by (simp only: badge_cases(2) [OF n] toFixed_example append.simps)
qed

lemma badge_large_example:
  "changeBadge ''24h'' (Some 1000000000000000000000) =
     El ''div'' ''p-4 rounded-lg bg-green-50''
       [El ''p'' ''text-sm text-gray-500'' [Txt ''24h''],
        El ''p'' ''font-bold text-green-600'' [Txt ''1e+21%'']]"
proof -
  have p: "(0::rat) < 1000000000000000000000" by simp
  show ?thesis
    by (simp only: badge_cases(1) [OF p] large_value_examples append.simps)
qed

section \<open>Properties of the proxy endpoint\<close>

text \<open>
  C1. Whenever the upstream fetch rejects, resolves with a status outside 200 to 299, or
  resolves with a body that is not JSON, the handler answers with the body
  \<open>{ error: "Failed to fetch data from DefiLlama" }\<close> and status 500; and every answer
  whose status is not 200 is that envelope, so it is the only error result.
\<close>

theorem proxy_error_envelope:
  "((u = Rejected \<or> (\<exists>st b. u = Resolved st b \<and> (st < 200 \<or> 299 < st \<or> b = None))) \<longrightarrow>
      snd (GET u) =
        \<lparr>body = JObject [(''error'', JString ''Failed to fetch data from DefiLlama'')],
         status = 500\<rparr>) \<and>
   (status (snd (GET u)) \<noteq> 200 \<longrightarrow>
      snd (GET u) =
        \<lparr>body = JObject [(''error'', JString ''Failed to fetch data from DefiLlama'')],
         status = 500\<rparr>)"
  by (auto simp: GET_def catch_def ok_def split: upstream.splits option.splits)

theorem proxy_error_envelope_witness:
  "snd (GET (Resolved 404 (Some (JString ''Not Found'')))) =
     \<lparr>body = JObject [(''error'', JString ''Failed to fetch data from DefiLlama'')],
      status = 500\<rparr>"
proof -
  have "(404::nat) < 200 \<or> 299 < (404::nat) \<or> Some (JString ''Not Found'') = None"
    by simp
  then have "\<exists>st b. Resolved 404 (Some (JString ''Not Found'')) = Resolved st b \<and>
                 (st < 200 \<or> 299 < st \<or> b = None)"
    by blast
  then show ?thesis
    using proxy_error_envelope [of "Resolved 404 (Some (JString ''Not Found''))"] by blast
qed




section \<open>Properties of the detail view\<close>

text \<open>
  C4. The chart-point list is empty in the initial state and after any sequence of events
  (the fetch settling in any way, any clicks on the tabs), and the page rendered in any such
  state does not contain the chart renderer.
\<close>

theorem chart_points_stay_empty:
  "chartData initial = [] \<and> chartData (run evs) = [] \<and>
   \<not> invokesChart (PumpSwapPage tz (run evs))"
  by (simp add: initial_def chartData_run no_chart_page)

theorem chart_points_stay_empty_witness:
  "chartData initial = [] \<and>
   chartData (run [Settled (FetchResolved 200 (Some (Some emptySnapshot))), Click Volume]) = [] \<and>
   \<not> invokesChart
       (PumpSwapPage utc
          (run [Settled (FetchResolved 200 (Some (Some emptySnapshot))), Click Volume]))"
  by (rule chart_points_stay_empty)

text \<open>
  C6, as stated: for the empty chart-point list the chart area would show the text
  \<open>No data chart available\<close>. The only text of the chart area is then
  \<open>No chart data available\<close>.
\<close>

theorem placeholder_text_counterexample:
  "texts (chartArea utc []) = [''No chart data available''] \<and>
   ''No data chart available'' \<notin> set (texts (chartArea utc []))"
  by (simp add: chartArea_def)

text \<open>
  C6, amended. For the empty chart-point list the chart area renders the placeholder with
  the literal text \<open>No chart data available\<close>, and the chart renderer is not invoked.
\<close>

theorem empty_chart_placeholder:
  "chartArea tz [] =
     El ''div'' ''h-80 mt-6''
       [El ''div'' ''flex justify-center items-center h-full''
          [El ''p'' [] [Txt ''No chart data available'']]] \<and>
   texts (chartArea tz []) = [''No chart data available''] \<and>
   \<not> invokesChart (chartArea tz [])"
  by (simp add: chartArea_def)

theorem empty_chart_placeholder_witness:
  "chartArea utc [] =
     El ''div'' ''h-80 mt-6''
       [El ''div'' ''flex justify-center items-center h-full''
          [El ''p'' [] [Txt ''No chart data available'']]] \<and>
   texts (chartArea utc []) = [''No chart data available''] \<and>
   \<not> invokesChart (chartArea utc [])"
  by (rule empty_chart_placeholder)




text \<open>
  C8, as stated: a fetch that resolves with an empty snapshot would show
  \<open>No data available\<close>. The empty object \<open>{}\<close> is truthy: the page shows the
  ready-state content for it, and the text \<open>No data available\<close> is nowhere on the page.
\<close>

theorem empty_snapshot_counterexample:
  "''No data available'' \<notin>
     set (texts (PumpSwapPage utc (run [Settled (FetchResolved 200 (Some (Some emptySnapshot)))]))) \<and>
   content utc (run [Settled (FetchResolved 200 (Some (Some emptySnapshot)))]) =
     readyContent utc (run [Settled (FetchResolved 200 (Some (Some emptySnapshot)))]) emptySnapshot"
  by (simp add: settled_ok initial_def PumpSwapPage_def content_def readyContent_def
      header_def textOf_def tabButton_def chartArea_def information_def performance_def
      badges_def changeBadge_def changeText_def chainDistribution_def emptySnapshot_def)

text \<open>
  C8, amended. When the fetch resolves with a status from 200 to 299 and the snapshot is
  \<open>null\<close>, the content of the page is the one paragraph \<open>No data available\<close>.
\<close>

theorem null_snapshot_no_data:
  "200 \<le> st \<Longrightarrow> st \<le> 299 \<Longrightarrow>
   content tz (run [Settled (FetchResolved st (Some None))]) =
     [El ''p'' [] [Txt ''No data available'']]"
  by (simp add: settled_ok initial_def content_def)

theorem null_snapshot_no_data_witness:
  "content utc (run [Settled (FetchResolved 200 (Some None))]) =
     [El ''p'' [] [Txt ''No data available'']]"
  by (rule null_snapshot_no_data) simp_all

text \<open>
  C9. On the page of a ready snapshot the heading of the chain distribution occurs exactly
  when \<open>chainTvls\<close> is present with at least one entry. The page then shows the grid with
  one card for each entry, in order: the chain name, and the value as US dollars without
  fraction digits (a minus sign for a negative value, the dollar sign, the rounded magnitude
  in groups of three).
\<close>

theorem chain_grid:
  assumes "\<not> loading s" "error s = None" "data s = Some d"
  shows "(El ''h3'' ''text-xl font-bold mb-4'' [Txt ''Chain Distribution''] \<in>
            set (subnodes (PumpSwapPage tz s)) \<longleftrightarrow>
          (\<exists>es. chainTvls d = Some es \<and> es \<noteq> [])) \<and>
     (chainTvls d = Some entries \<and> entries \<noteq> [] \<longrightarrow>
        El ''div'' ''bg-white p-6 rounded-lg shadow-sm''
          [El ''h3'' ''text-xl font-bold mb-4'' [Txt ''Chain Distribution''],
           El ''div'' ''grid grid-cols-2 sm:grid-cols-3 md:grid-cols-4 gap-4''
             (map (\<lambda>(chain, v).
                     El ''div'' ''p-4 bg-gray-50 rounded-lg''
                       [El ''p'' ''font-semibold'' (if chain = [] then [] else [Txt chain]),
                        El ''p'' []
                          [Txt ((if v < 0 then ''-'' else '''') @ ''$'' @
                                groupThousands (shortestDecimal (nat \<lfloor>\<bar>v\<bar> + 1 / 2\<rfloor>)))]])
                entries)] \<in> set (subnodes (PumpSwapPage tz s)))"
proof (intro conjI impI)
  show "El ''h3'' ''text-xl font-bold mb-4'' [Txt ''Chain Distribution''] \<in>
            set (subnodes (PumpSwapPage tz s)) \<longleftrightarrow>
          (\<exists>es. chainTvls d = Some es \<and> es \<noteq> [])"
    using assms by (rule chain_heading_on_page)
next
  assume e: "chainTvls d = Some entries \<and> entries \<noteq> []"
  have c: "content tz s = readyContent tz s d"
    using assms by (rule content_ready)
  have m: "map chainCard entries =
        map (\<lambda>(chain, v).
               El ''div'' ''p-4 bg-gray-50 rounded-lg''
                 [El ''p'' ''font-semibold'' (if chain = [] then [] else [Txt chain]),
                  El ''p'' []
                    [Txt ((if v < 0 then ''-'' else '''') @ ''$'' @
                          groupThousands (shortestDecimal (nat \<lfloor>\<bar>v\<bar> + 1 / 2\<rfloor>)))]]) entries"
    by (rule map_cong) (auto simp add: chainCard_text)
  have g: "chainDistribution d =
     [El ''div'' ''bg-white p-6 rounded-lg shadow-sm''
          [El ''h3'' ''text-xl font-bold mb-4'' [Txt ''Chain Distribution''],
           El ''div'' ''grid grid-cols-2 sm:grid-cols-3 md:grid-cols-4 gap-4''
             (map chainCard entries)]]"
    using e by (simp add: chainDistribution_def)
  have "El ''div'' ''bg-white p-6 rounded-lg shadow-sm''
          [El ''h3'' ''text-xl font-bold mb-4'' [Txt ''Chain Distribution''],
           El ''div'' ''grid grid-cols-2 sm:grid-cols-3 md:grid-cols-4 gap-4''
             (map chainCard entries)] \<in> set (subnodes (PumpSwapPage tz s))"
    by (simp add: PumpSwapPage_def c readyContent_def g)
  then show "El ''div'' ''bg-white p-6 rounded-lg shadow-sm''
          [El ''h3'' ''text-xl font-bold mb-4'' [Txt ''Chain Distribution''],
           El ''div'' ''grid grid-cols-2 sm:grid-cols-3 md:grid-cols-4 gap-4''
             (map (\<lambda>(chain, v).
                     El ''div'' ''p-4 bg-gray-50 rounded-lg''
                       [El ''p'' ''font-semibold'' (if chain = [] then [] else [Txt chain]),
                        El ''p'' []
                          [Txt ((if v < 0 then ''-'' else '''') @ ''$'' @
                                groupThousands (shortestDecimal (nat \<lfloor>\<bar>v\<bar> + 1 / 2\<rfloor>)))]])
                entries)] \<in> set (subnodes (PumpSwapPage tz s))"
    by (simp only: m)
qed

theorem chain_grid_witness:
  "El ''div'' ''bg-white p-6 rounded-lg shadow-sm''
     [El ''h3'' ''text-xl font-bold mb-4'' [Txt ''Chain Distribution''],
      El ''div'' ''grid grid-cols-2 sm:grid-cols-3 md:grid-cols-4 gap-4''
        [El ''div'' ''p-4 bg-gray-50 rounded-lg''
           [El ''p'' ''font-semibold'' [Txt ''Solana''],
            El ''p'' [] [Txt ''$500,000'']],
         El ''div'' ''p-4 bg-gray-50 rounded-lg''
           [El ''p'' ''font-semibold'' [Txt ''Ethereum''],
            El ''p'' [] [Txt ''$1,234,567'']]]] \<in>
     set (subnodes (PumpSwapPage utc
       (run [Settled (FetchResolved 200 (Some (Some
          (emptySnapshot\<lparr>chainTvls := Some [(''Solana'', 500000), (''Ethereum'', 1234567)]\<rparr>))))]))) \<and>
   El ''h3'' ''text-xl font-bold mb-4'' [Txt ''Chain Distribution''] \<notin>
     set (subnodes (PumpSwapPage utc
       (run [Settled (FetchResolved 200 (Some (Some (emptySnapshot\<lparr>chainTvls := Some []\<rparr>))))]))) \<and>
   El ''h3'' ''text-xl font-bold mb-4'' [Txt ''Chain Distribution''] \<notin>
     set (subnodes (PumpSwapPage utc
       (run [Settled (FetchResolved 200 (Some (Some emptySnapshot)))])))"
proof -
  let ?es = "[(''Solana'', 500000::rat), (''Ethereum'', 1234567)]"
  let ?d = "emptySnapshot\<lparr>chainTvls := Some ?es\<rparr>"
  let ?s = "run [Settled (FetchResolved 200 (Some (Some ?d)))]"
  have r: "\<not> loading ?s" "error ?s = None" "data ?s = Some ?d"
    by (simp_all add: settled_ok initial_def)
  have e: "chainTvls ?d = Some ?es \<and> ?es \<noteq> []"
    by simp
  have 1: "El ''div'' ''bg-white p-6 rounded-lg shadow-sm''
     [El ''h3'' ''text-xl font-bold mb-4'' [Txt ''Chain Distribution''],
      El ''div'' ''grid grid-cols-2 sm:grid-cols-3 md:grid-cols-4 gap-4''
        [El ''div'' ''p-4 bg-gray-50 rounded-lg''
           [El ''p'' ''font-semibold'' [Txt ''Solana''],
            El ''p'' [] [Txt ''$500,000'']],
         El ''div'' ''p-4 bg-gray-50 rounded-lg''
           [El ''p'' ''font-semibold'' [Txt ''Ethereum''],
            El ''p'' [] [Txt ''$1,234,567'']]]] \<in> set (subnodes (PumpSwapPage utc ?s))"
    using chain_grid [OF r, of utc ?es] e currency_text_examples
    by simp
  let ?d2 = "emptySnapshot\<lparr>chainTvls := Some []\<rparr>"
  let ?s2 = "run [Settled (FetchResolved 200 (Some (Some ?d2)))]"
  have r2: "\<not> loading ?s2" "error ?s2 = None" "data ?s2 = Some ?d2"
    by (simp_all add: settled_ok initial_def)
  have 2: "El ''h3'' ''text-xl font-bold mb-4'' [Txt ''Chain Distribution''] \<notin>
             set (subnodes (PumpSwapPage utc ?s2))"
    using chain_grid [OF r2, of utc "[]"] by simp
  let ?s3 = "run [Settled (FetchResolved 200 (Some (Some emptySnapshot)))]"
  have r3: "\<not> loading ?s3" "error ?s3 = None" "data ?s3 = Some emptySnapshot"
    by (simp_all add: settled_ok initial_def)
  have 3: "El ''h3'' ''text-xl font-bold mb-4'' [Txt ''Chain Distribution''] \<notin>
             set (subnodes (PumpSwapPage utc ?s3))"
    using chain_grid [OF r3, of utc "[]"] by (simp add: emptySnapshot_def)
  from 1 2 3 show ?thesis by blast
qed

text \<open>
  C10. For a ready snapshot the page shows the grid of the three badges; a change field
  that is present with the value 0 gives the badge of its period the text \<open>N/A\<close> with
  the red classes, the same node as for an absent field.
\<close>

theorem zero_change_shows_na:
  assumes "\<not> loading s" "error s = None" "data s = Some d"
  shows "El ''div'' ''grid grid-cols-3 gap-4'' (badges d) \<in> set (subnodes (PumpSwapPage tz s)) \<and>
    (change_1d d = Some 0 \<longrightarrow>
       badges d ! 0 = changeBadge ''24h'' None \<and>
       badges d ! 0 =
         El ''div'' ''p-4 rounded-lg bg-red-50''
           [El ''p'' ''text-sm text-gray-500'' [Txt ''24h''],
            El ''p'' ''font-bold text-red-600'' [Txt ''N/A'']]) \<and>
    (change_7d d = Some 0 \<longrightarrow>
       badges d ! 1 = changeBadge ''7d'' None \<and>
       badges d ! 1 =
         El ''div'' ''p-4 rounded-lg bg-red-50''
           [El ''p'' ''text-sm text-gray-500'' [Txt ''7d''],
            El ''p'' ''font-bold text-red-600'' [Txt ''N/A'']]) \<and>
    (change_1m d = Some 0 \<longrightarrow>
       badges d ! 2 = changeBadge ''30d'' None \<and>
       badges d ! 2 =
         El ''div'' ''p-4 rounded-lg bg-red-50''
           [El ''p'' ''text-sm text-gray-500'' [Txt ''30d''],
            El ''p'' ''font-bold text-red-600'' [Txt ''N/A'']])"
proof (intro conjI impI)
  show "El ''div'' ''grid grid-cols-3 gap-4'' (badges d) \<in> set (subnodes (PumpSwapPage tz s))"
    using assms by (rule ready_shows)
qed (simp_all add: badges_def changeBadge_def isUp_def changeText_def)

theorem zero_change_shows_na_witness:
  "badges (emptySnapshot\<lparr>change_1d := Some 0, change_7d := Some 0, change_1m := Some 0\<rparr>) =
     [El ''div'' ''p-4 rounded-lg bg-red-50''
        [El ''p'' ''text-sm text-gray-500'' [Txt ''24h''],
         El ''p'' ''font-bold text-red-600'' [Txt ''N/A'']],
      El ''div'' ''p-4 rounded-lg bg-red-50''
        [El ''p'' ''text-sm text-gray-500'' [Txt ''7d''],
         El ''p'' ''font-bold text-red-600'' [Txt ''N/A'']],
      El ''div'' ''p-4 rounded-lg bg-red-50''
        [El ''p'' ''text-sm text-gray-500'' [Txt ''30d''],
         El ''p'' ''font-bold text-red-600'' [Txt ''N/A'']]]"
proof -
  let ?d = "emptySnapshot\<lparr>change_1d := Some 0, change_7d := Some 0, change_1m := Some 0\<rparr>"
  let ?s = "initial\<lparr>data := Some ?d, loading := False\<rparr>"
  have r: "\<not> loading ?s" "error ?s = None" "data ?s = Some ?d"
    by (simp_all add: initial_def)
  have z: "change_1d ?d = Some 0" "change_7d ?d = Some 0" "change_1m ?d = Some 0"
    by simp_all
  have l: "badges ?d = [badges ?d ! 0, badges ?d ! 1, badges ?d ! 2]"
    by (simp add: badges_def)
  from zero_change_shows_na [OF r, of utc] z
  have "badges ?d ! 0 =
         El ''div'' ''p-4 rounded-lg bg-red-50''
           [El ''p'' ''text-sm text-gray-500'' [Txt ''24h''],
            El ''p'' ''font-bold text-red-600'' [Txt ''N/A'']]"
    and "badges ?d ! 1 =
         El ''div'' ''p-4 rounded-lg bg-red-50''
           [El ''p'' ''text-sm text-gray-500'' [Txt ''7d''],
            El ''p'' ''font-bold text-red-600'' [Txt ''N/A'']]"
    and "badges ?d ! 2 =
         El ''div'' ''p-4 rounded-lg bg-red-50''
           [El ''p'' ''text-sm text-gray-500'' [Txt ''30d''],
            El ''p'' ''font-bold text-red-600'' [Txt ''N/A'']]"
    by blast+
  with l show ?thesis by metis
qed

text \<open>
  C3, at the snapshot \<open>{ change_1d: 0 }\<close>: the field is present and not below zero, and
  the 24h badge is red with the text \<open>N/A\<close>.
\<close>

theorem zero_change_1d_not_green:
  "badges (emptySnapshot\<lparr>change_1d := Some 0\<rparr>) ! 0 =
     El ''div'' ''p-4 rounded-lg bg-red-50''
       [El ''p'' ''text-sm text-gray-500'' [Txt ''24h''],
        El ''p'' ''font-bold text-red-600'' [Txt ''N/A'']]"
  by (simp add: badges_def changeBadge_def isUp_def changeText_def)

text \<open>
  C5, at the snapshot \<open>{ name: "PumpSwap", tvl: 0 }\<close>: the field \<open>tvl\<close> is present,
  and the header shows the bare text \<open>0\<close> after the name, not a formatted currency
  value.
\<close>

theorem zero_tvl_header:
  "header (emptySnapshot\<lparr>name := Some ''PumpSwap'', tvl := Some 0\<rparr>) =
     El ''div'' ''flex flex-col md:flex-row justify-between items-start md:items-center mb-6''
       [El ''h1'' ''text-3xl font-bold'' [Txt ''PumpSwap''], Txt ''0'']"
  by (simp add: header_def textOf_def)

end
